theory Spec2Isabelle
  imports Main
begin

section \<open>Python values and errors\<close>

text \<open>
  The values that \<^verbatim>\<open>json.loads\<close> produces and that \<^verbatim>\<open>json.dumps\<close> accepts: a JSON
  object is a Python dict, kept as an association list in insertion order (its keys are
  distinct in Python). Numbers are integers here; no field of the program computes with them.
\<close>

datatype pyval =
    PNone
  | PBool bool
  | PInt int
  | PStr string
  | PList "pyval list"
  | PDict "(string \<times> pyval) list"

datatype type_error =
    UnexpectedKeyword string
  | MissingArgument string
  | NotAMapping
  | NotIterable
  | ExpectedString
  | NotSavableImage

datatype error =
    ValueError string
  | TypeError type_error
  | AttributeError
  | HTTPError int
  | FileNotFoundError
  | JSONDecodeError

text \<open>Python's truth value of an object, as \<^verbatim>\<open>not x\<close> and \<^verbatim>\<open>x or y\<close> use it.\<close>

fun truthy :: "pyval \<Rightarrow> bool" where
  "truthy PNone = False"
| "truthy (PBool b) = b"
| "truthy (PInt i) = (i \<noteq> 0)"
| "truthy (PStr s) = (s \<noteq> [])"
| "truthy (PList xs) = (xs \<noteq> [])"
| "truthy (PDict kv) = (kv \<noteq> [])"

definition py_or :: "pyval \<Rightarrow> pyval \<Rightarrow> pyval" where
  "py_or a b = (if truthy a then a else b)"

section \<open>The regular expressions of the program, under \<^verbatim>\<open>re.match\<close>\<close>

text \<open>
  Only the constructs the program's patterns use: a literal character, the class
  \<^verbatim>\<open>[0-9]\<close>, the dot (any character but a newline), sequence and alternation; a
  repetition \<^verbatim>\<open>{n}\<close> is unfolded into a sequence by \<open>rx_rep\<close>.
  \<open>rests r s\<close> lists what is left of \<open>s\<close> after each way \<open>r\<close> matches a prefix of it;
  \<^verbatim>\<open>re.match\<close> anchors at the start of the string only, so it succeeds when there is
  any such way.
\<close>

datatype rx = Eps | Ch char | Digit | AnyCh | Seq rx rx | Alt rx rx

definition is_digit :: "char \<Rightarrow> bool" where
  "is_digit c = (c \<in> set ''0123456789'')"

fun rests :: "rx \<Rightarrow> string \<Rightarrow> string list" where
  "rests Eps s = [s]"
| "rests (Ch c) s = (case s of [] \<Rightarrow> [] | x # xs \<Rightarrow> if x = c then [xs] else [])"
| "rests Digit s = (case s of [] \<Rightarrow> [] | x # xs \<Rightarrow> if is_digit x then [xs] else [])"
| "rests AnyCh s = (case s of [] \<Rightarrow> [] | x # xs \<Rightarrow> if x \<noteq> CHR 0x0A then [xs] else [])"
| "rests (Seq r1 r2) s = concat (map (rests r2) (rests r1 s))"
| "rests (Alt r1 r2) s = rests r1 s @ rests r2 s"

definition re_match :: "rx \<Rightarrow> string \<Rightarrow> bool" where
  "re_match r s = (rests r s \<noteq> [])"

primrec rx_rep :: "nat \<Rightarrow> rx \<Rightarrow> rx" where
  "rx_rep 0 r = Eps"
| "rx_rep (Suc n) r = Seq r (rx_rep n r)"

primrec rx_lit :: "string \<Rightarrow> rx" where
  "rx_lit [] = Eps"
| "rx_lit (c # cs) = Seq (Ch c) (rx_lit cs)"

text \<open>\<^verbatim>\<open>APOD_DATE_FORMAT_RE = r'[0-9]{4}-[0-9]{2}-[0-9]{2}'\<close>\<close>

definition APOD_DATE_FORMAT_RE :: rx where
  "APOD_DATE_FORMAT_RE =
     Seq (rx_rep 4 Digit) (Seq (Ch CHR ''-'') (Seq (rx_rep 2 Digit)
       (Seq (Ch CHR ''-'') (rx_rep 2 Digit))))"

definition date_format_message :: string where
  "date_format_message = ''date must follow format YYYY-MM-DD([0-9]{4}-[0-9]{2}-[0-9]{2})''"

section \<open>The record \<^verbatim>\<open>APOD\<close> (apod.py)\<close>

text \<open>
  The dataclass does not enforce its annotations, so a field holds whatever the decoded
  document gave it. The date alone is a string in every constructed record: the first
  check of \<^verbatim>\<open>_validate_data\<close> passes it to \<^verbatim>\<open>re.match\<close>, which raises TypeError on
  anything else.
\<close>

record APOD =
  date :: string
  title :: pyval
  explanation :: pyval
  url :: pyval
  media_type :: pyval
  hdurl :: pyval
  concepts :: pyval
  thumbnail_url :: pyval
  copyright :: pyval
  resources :: pyval
  service_version :: pyval

definition APOD_validate_data :: "APOD \<Rightarrow> error + unit" where
  "APOD_validate_data r =
     (if \<not> re_match APOD_DATE_FORMAT_RE (date r) then Inl (ValueError date_format_message)
      else if \<not> truthy (title r) then Inl (ValueError ''APOD must have title'')
      else if url r = PNone \<and> hdurl r = PNone
        then Inl (ValueError ''APOD must have at least url or hdurl'')
      else Inr ())"

definition APOD_fields :: "string list" where
  "APOD_fields = [''date'', ''title'', ''explanation'', ''url'', ''media_type'', ''hdurl'',
     ''concepts'', ''thumbnail_url'', ''copyright'', ''resources'', ''service_version'']"

definition APOD_required :: "string list" where
  "APOD_required = [''date'', ''title'', ''explanation'', ''url'', ''media_type'']"

definition kwarg :: "(string \<times> pyval) list \<Rightarrow> string \<Rightarrow> pyval" where
  "kwarg kw k = (case map_of kw k of Some v \<Rightarrow> v | None \<Rightarrow> PNone)"

text \<open>
  \<^verbatim>\<open>APOD(**kw)\<close>: the generated \<^verbatim>\<open>__init__\<close> rejects a keyword that is no field and a
  missing field without default, fills the optional fields with None, and then
  \<^verbatim>\<open>__post_init__\<close> validates.
\<close>

definition APOD_init :: "(string \<times> pyval) list \<Rightarrow> error + APOD" where
  "APOD_init kw =
     (case find (\<lambda>k. k \<notin> set APOD_fields) (map fst kw) of
        Some k \<Rightarrow> Inl (TypeError (UnexpectedKeyword k))
      | None \<Rightarrow>
     (case find (\<lambda>k. k \<notin> set (map fst kw)) APOD_required of
        Some k \<Rightarrow> Inl (TypeError (MissingArgument k))
      | None \<Rightarrow>
     (case kwarg kw ''date'' of
        PStr d \<Rightarrow>
          (let r = \<lparr> date = d, title = kwarg kw ''title'',
                     explanation = kwarg kw ''explanation'', url = kwarg kw ''url'',
                     media_type = kwarg kw ''media_type'', hdurl = kwarg kw ''hdurl'',
                     concepts = kwarg kw ''concepts'',
                     thumbnail_url = kwarg kw ''thumbnail_url'',
                     copyright = kwarg kw ''copyright'', resources = kwarg kw ''resources'',
                     service_version = kwarg kw ''service_version'' \<rparr>
           in case APOD_validate_data r of Inl e \<Rightarrow> Inl e | Inr _ \<Rightarrow> Inr r)
      | _ \<Rightarrow> Inl (TypeError ExpectedString))))"

text \<open>\<^verbatim>\<open>APOD(**v)\<close> for a decoded document \<open>v\<close>: only a dict can be unpacked.\<close>

definition APOD_of :: "pyval \<Rightarrow> error + APOD" where
  "APOD_of v = (case v of PDict kw \<Rightarrow> APOD_init kw | _ \<Rightarrow> Inl (TypeError NotAMapping))"


definition best_url :: "APOD \<Rightarrow> pyval" where
  "best_url r = py_or (hdurl r) (url r)"

definition is_image :: "APOD \<Rightarrow> bool" where
  "is_image r = (media_type r = PStr ''image'')"

text \<open>\<^verbatim>\<open>str.rindex\<close>: the highest index of the character, or ValueError when there is none.\<close>

fun rindex :: "string \<Rightarrow> char \<Rightarrow> nat option" where
  "rindex [] c = None"
| "rindex (x # xs) c =
     (case rindex xs c of
        Some i \<Rightarrow> Some (Suc i)
      | None \<Rightarrow> if x = c then Some 0 else None)"

definition media_extension :: "APOD \<Rightarrow> error + string" where
  "media_extension r =
     (case best_url r of
        PStr s \<Rightarrow>
          (case rindex s CHR ''.'' of
             None \<Rightarrow> Inl (ValueError ''substring not found'')
           | Some i \<Rightarrow>
               (let ext = drop (i + 1) s
                in Inr (if length ext > 4 then ''jpg'' else ext)))
      | _ \<Rightarrow> Inl AttributeError)"

text \<open>\<^verbatim>\<open>dataclasses.asdict\<close>: every field, in declaration order.\<close>

definition asdict :: "APOD \<Rightarrow> pyval" where
  "asdict r = PDict
     [(''date'', PStr (date r)), (''title'', title r), (''explanation'', explanation r),
      (''url'', url r), (''media_type'', media_type r), (''hdurl'', hdurl r),
      (''concepts'', concepts r), (''thumbnail_url'', thumbnail_url r),
      (''copyright'', copyright r), (''resources'', resources r),
      (''service_version'', service_version r)]"

section \<open>Files, the remote source and the clock\<close>

text \<open>
  A file holds either text that \<^verbatim>\<open>json.loads\<close> decodes to a value (\<open>Document\<close>; the
  text \<^verbatim>\<open>json.dumps\<close> writes for a value decodes to that value) or anything else
  (\<open>Blob\<close>), on which \<^verbatim>\<open>json.loads\<close> raises. A directory is its listing, in
  \<^verbatim>\<open>listdir\<close> order, with the content of each entry; a path that is no directory has
  none. A file is addressed by its directory and its name within it.
\<close>

datatype fcontent = Document pyval | Blob "nat list"

type_synonym dir = "(string \<times> fcontent) list"

datatype request =
    ApiGet "(string \<times> pyval) list"
  | UrlGet pyval

record response =
  ok :: bool
  status_code :: int
  body :: fcontent

text \<open>What a call reads from outside: the answer of the remote side, and today's date
  as \<^verbatim>\<open>datetime.now().strftime('%Y-%m-%d')\<close> gives it, and the home-dependent defaults.\<close>

record env =
  remote :: "request \<Rightarrow> response"
  today :: string
  default_apods_dir :: string
  default_apods_media_dir :: string

text \<open>What a call may change: the directories, and the requests sent so far.\<close>

record world =
  dirs :: "string \<Rightarrow> dir option"
  net_log :: "request list"

definition json_loads :: "fcontent \<Rightarrow> error + pyval" where
  "json_loads c = (case c of Document v \<Rightarrow> Inr v | Blob _ \<Rightarrow> Inl JSONDecodeError)"

definition listdir :: "world \<Rightarrow> string \<Rightarrow> error + string list" where
  "listdir w p = (case dirs w p of None \<Rightarrow> Inl FileNotFoundError | Some es \<Rightarrow> Inr (map fst es))"


text \<open>Opening for writing truncates an existing entry and creates a missing one.\<close>

fun put_file :: "string \<Rightarrow> fcontent \<Rightarrow> dir \<Rightarrow> dir" where
  "put_file n c [] = [(n, c)]"
| "put_file n c (e # es) = (if fst e = n then (n, c) # es else e # put_file n c es)"

definition write_file :: "world \<Rightarrow> string \<Rightarrow> string \<Rightarrow> fcontent \<Rightarrow> error + world" where
  "write_file w p n c =
     (case dirs w p of
        None \<Rightarrow> Inl FileNotFoundError
      | Some es \<Rightarrow> Inr (w\<lparr>dirs := (dirs w)(p \<mapsto> put_file n c es)\<rparr>))"

definition send :: "env \<Rightarrow> request \<Rightarrow> world \<Rightarrow> response \<times> world" where
  "send e rq w = (remote e rq, w\<lparr>net_log := net_log w @ [rq]\<rparr>)"

section \<open>The remote source client (apod.py)\<close>



text \<open>Iterating over a decoded value: a list gives its elements, a dict its keys, a
  string its characters; nothing else can be iterated.\<close>

definition py_iter :: "pyval \<Rightarrow> error + pyval list" where
  "py_iter v =
     (case v of
        PList xs \<Rightarrow> Inr xs
      | PDict kv \<Rightarrow> Inr (map (\<lambda>p. PStr (fst p)) kv)
      | PStr s \<Rightarrow> Inr (map (\<lambda>c. PStr [c]) s)
      | _ \<Rightarrow> Inl (TypeError NotIterable))"

text \<open>The comprehension \<^verbatim>\<open>[APOD(**data) for data in ...]\<close> stops at the first error.\<close>

fun APOD_each :: "pyval list \<Rightarrow> error + APOD list" where
  "APOD_each [] = Inr []"
| "APOD_each (v # vs) =
     (case APOD_of v of
        Inl e \<Rightarrow> Inl e
      | Inr r \<Rightarrow> (case APOD_each vs of Inl e \<Rightarrow> Inl e | Inr rs \<Rightarrow> Inr (r # rs)))"

definition APOD_fetch_random ::
  "env \<Rightarrow> string \<Rightarrow> int \<Rightarrow> world \<Rightarrow> (error + APOD list) \<times> world" where
  "APOD_fetch_random e key count w =
     (if \<not> (1 \<le> count \<and> count \<le> 100)
        then (Inl (ValueError ''`count` must be between (0, 100]''), w)
      else
        (let (resp, w') = send e (ApiGet [(''api_key'', PStr key), (''count'', PInt count)]) w in
         if \<not> ok resp then (Inl (HTTPError (status_code resp)), w')
         else (case json_loads (body resp) of
                 Inl err \<Rightarrow> (Inl err, w')
               | Inr v \<Rightarrow>
                   (case py_iter v of
                      Inl err \<Rightarrow> (Inl err, w')
                    | Inr vs \<Rightarrow> (APOD_each vs, w')))))"

section \<open>The archive \<^verbatim>\<open>ManagerConfiguration\<close> (mgrcfg.py)\<close>

record ManagerConfiguration =
  api_key :: string
  apods_path :: string
  apods_media_path :: string

definition store_apod :: "ManagerConfiguration \<Rightarrow> APOD \<Rightarrow> world \<Rightarrow> (error + APOD) \<times> world" where
  "store_apod cfg apod w =
     (case write_file w (apods_path cfg) (date apod @ ''.json'') (Document (asdict apod)) of
        Inl e \<Rightarrow> (Inl e, w)
      | Inr w' \<Rightarrow> (Inr apod, w'))"

fun store_apods ::
  "ManagerConfiguration \<Rightarrow> APOD list \<Rightarrow> world \<Rightarrow> (error + unit) \<times> world" where
  "store_apods cfg [] w = (Inr (), w)"
| "store_apods cfg (a # as) w =
     (case store_apod cfg a w of
        (Inl e, w') \<Rightarrow> (Inl e, w')
      | (Inr _, w') \<Rightarrow> store_apods cfg as w')"

text \<open>The two generators, as the list of what they yield.\<close>

definition stored_apods :: "ManagerConfiguration \<Rightarrow> world \<Rightarrow> error + string list" where
  "stored_apods cfg w =
     (let file_name_pattern = Seq APOD_DATE_FORMAT_RE (Seq AnyCh (rx_lit ''json'')) in
      case listdir w (apods_path cfg) of
        Inl e \<Rightarrow> Inl e
      | Inr names \<Rightarrow> Inr (filter (re_match file_name_pattern) names))"

definition stored_media :: "ManagerConfiguration \<Rightarrow> world \<Rightarrow> error + string list" where
  "stored_media cfg w =
     (let file_name_pattern =
            Seq APOD_DATE_FORMAT_RE
              (Seq AnyCh (Alt (rx_lit ''jpg'') (Alt (rx_lit ''png'') (rx_lit ''mp4'')))) in
      case listdir w (apods_path cfg) of
        Inl e \<Rightarrow> Inl e
      | Inr names \<Rightarrow> Inr (filter (re_match file_name_pattern) names))"



definition fetch_random ::
  "ManagerConfiguration \<Rightarrow> env \<Rightarrow> int \<Rightarrow> world \<Rightarrow> (error + APOD list) \<times> world" where
  "fetch_random cfg e count w =
     (case APOD_fetch_random e (api_key cfg) count w of
        (Inl err, w') \<Rightarrow> (Inl err, w')
      | (Inr apods, w') \<Rightarrow>
          (case store_apods cfg apods w' of
             (Inl err, w'') \<Rightarrow> (Inl err, w'')
           | (Inr _, w'') \<Rightarrow> (Inr apods, w'')))"

definition save_media_for ::
  "ManagerConfiguration \<Rightarrow> env \<Rightarrow> APOD \<Rightarrow> world \<Rightarrow> (error + unit) \<times> world" where
  "save_media_for cfg e apod w =
     (case media_extension apod of
        Inl err \<Rightarrow> (Inl err, w)
      | Inr ext \<Rightarrow>
     (let file_name = date apod @ ''.'' @ ext in
      case listdir w (apods_media_path cfg) of
        Inl err \<Rightarrow> (Inl err, w)
      | Inr names \<Rightarrow>
          if file_name \<in> set names then (Inr (), w)
          else if \<not> is_image apod then (Inl (TypeError NotSavableImage), w)
          else
            (let (resp, w') = send e (UrlGet (best_url apod)) w in
             if \<not> ok resp then (Inl (HTTPError (status_code resp)), w')
             else (case write_file w' (apods_media_path cfg) file_name (body resp) of
                     Inl err \<Rightarrow> (Inl err, w')
                   | Inr w'' \<Rightarrow> (Inr (), w'')))))"

subsection \<open>Loading the configuration\<close>









section \<open>Notation for the statements, and example inputs\<close>




definition media_file_name :: "APOD \<Rightarrow> string \<Rightarrow> string" where
  "media_file_name r ext = date r @ ''.'' @ ext"

definition example_apod :: APOD where
  "example_apod =
     \<lparr> date = ''2024-01-01'', title = PStr ''Galaxy'', explanation = PStr ''A galaxy.'',
       url = PStr ''https://example.com/a.jpg'', media_type = PStr ''image'', hdurl = PNone,
       concepts = PNone, thumbnail_url = PNone, copyright = PNone, resources = PNone,
       service_version = PStr ''v1'' \<rparr>"


definition example_video :: APOD where
  "example_video =
     example_apod\<lparr> url := PStr ''https://example.com/v.mp4'', media_type := PStr ''video'' \<rparr>"


definition example_no_dot :: APOD where
  "example_no_dot = example_apod\<lparr> url := PStr ''http://localhost/image'' \<rparr>"

definition example_cfg :: ManagerConfiguration where
  "example_cfg = \<lparr> api_key = ''X'', apods_path = ''apods'', apods_media_path = ''apods/images'' \<rparr>"

text \<open>A remote side that answers every API request with the record \<open>r\<close> and every
  other request with two bytes, and one that answers everything with status 503.\<close>

definition env_serving :: "APOD \<Rightarrow> env" where
  "env_serving r =
     \<lparr> remote = (\<lambda>rq. case rq of
                    ApiGet _ \<Rightarrow> \<lparr> ok = True, status_code = 200, body = Document (asdict r) \<rparr>
                  | UrlGet _ \<Rightarrow> \<lparr> ok = True, status_code = 200, body = Blob [255, 216] \<rparr>),
       today = ''2024-01-01'', default_apods_dir = ''apods'',
       default_apods_media_dir = ''apods/images'' \<rparr>"

definition env_down :: env where
  "env_down =
     \<lparr> remote = (\<lambda>rq. \<lparr> ok = False, status_code = 503, body = Blob [] \<rparr>),
       today = ''2024-01-01'', default_apods_dir = ''apods'',
       default_apods_media_dir = ''apods/images'' \<rparr>"

definition world_of :: "dir \<Rightarrow> dir \<Rightarrow> world" where
  "world_of records media =
     \<lparr> dirs = [''apods'' \<mapsto> records, ''apods/images'' \<mapsto> media], net_log = [] \<rparr>"

definition world_empty :: world where
  "world_empty = world_of [] []"

definition world_one_image :: world where
  "world_one_image =
     world_of [(''2024-01-01.json'', Document (asdict example_apod))]
              [(''2024-01-01.jpg'', Blob [255, 216])]"

definition world_one_video :: world where
  "world_one_video = world_of [] [(''2024-01-01.mp4'', Blob [0])]"




section \<open>Auxiliary facts\<close>

lemma date_2024_01_01: "re_match APOD_DATE_FORMAT_RE ''2024-01-01''"
  by (simp add: re_match_def APOD_DATE_FORMAT_RE_def is_digit_def eval_nat_numeral)


lemma date_with_trailing_text: "re_match APOD_DATE_FORMAT_RE ''2024-01-01x''"
  by (simp add: re_match_def APOD_DATE_FORMAT_RE_def is_digit_def eval_nat_numeral)



lemma rindex_last: "c \<notin> set suf \<Longrightarrow> rindex (pre @ c # suf) c = Some (length pre)"
proof (induction pre)
  case Nil
  have "rindex suf c = None" using Nil by (induction suf) auto
  then show ?case by simp
next
  case (Cons a pre)
  then show ?case by simp
qed











section \<open>The archive's cache-first fetch\<close>









section \<open>Stored media\<close>

text \<open>
  C2 fails on the code: \<open>stored_media\<close> lists the records directory
  (\<^verbatim>\<open>listdir(self.apods_path)\<close>), not the media directory. With one record and its
  image stored, the media directory lists \<open>2024-01-01.jpg\<close> and \<open>stored_media\<close>
  yields nothing.
\<close>

theorem stored_media_lists_records_directory:
  "listdir world_one_image (apods_media_path example_cfg) = Inr [''2024-01-01.jpg''] \<and>
   listdir world_one_image (apods_path example_cfg) = Inr [''2024-01-01.json''] \<and>
   stored_media example_cfg world_one_image = Inr []"
  by (simp add: listdir_def stored_media_def world_one_image_def world_of_def example_cfg_def
      re_match_def APOD_DATE_FORMAT_RE_def is_digit_def eval_nat_numeral)

section \<open>The derived fields of a record\<close>




text \<open>
  C5 (as amended). For every record whose \<open>best_url\<close> is a string with a dot in it,
  \<open>media_extension\<close> returns what follows the last dot, or \<open>jpg\<close> when that is longer
  than 4 characters; the result has at most 4 characters.
\<close>

theorem media_extension_suffix:
  assumes "best_url r = PStr (pre @ CHR ''.'' # suf)" and "CHR ''.'' \<notin> set suf"
  shows "media_extension r = Inr (if length suf > 4 then ''jpg'' else suf) \<and>
         length (if length suf > 4 then ''jpg'' else suf) \<le> 4"
  using assms by (simp add: media_extension_def rindex_last)

theorem media_extension_suffix_witness:
  "best_url example_apod = PStr (''https://example.com/a'' @ CHR ''.'' # ''jpg'') \<and>
   CHR ''.'' \<notin> set ''jpg'' \<and>
   media_extension example_apod = Inr ''jpg'' \<and>
   best_url (example_apod\<lparr>hdurl := PStr ''https://example.com/a.jpeg?size=1''\<rparr>) =
     PStr (''https://example.com/a'' @ CHR ''.'' # ''jpeg?size=1'') \<and>
   media_extension (example_apod\<lparr>hdurl := PStr ''https://example.com/a.jpeg?size=1''\<rparr>) =
     Inr ''jpg''"
proof -
  have a: "best_url example_apod = PStr (''https://example.com/a'' @ CHR ''.'' # ''jpg'')"
    by (simp add: best_url_def py_or_def example_apod_def)
  have b: "best_url (example_apod\<lparr>hdurl := PStr ''https://example.com/a.jpeg?size=1''\<rparr>) =
     PStr (''https://example.com/a'' @ CHR ''.'' # ''jpeg?size=1'')"
    by (simp add: best_url_def py_or_def example_apod_def)
  have da: "CHR ''.'' \<notin> set ''jpg''" and db: "CHR ''.'' \<notin> set ''jpeg?size=1''"
    by simp_all
  show ?thesis
    using media_extension_suffix [OF a da] media_extension_suffix [OF b db] a b by simp
qed

text \<open>
  C5 as stated fails: \<^verbatim>\<open>rindex\<close> raises when the URL has no dot, so
  \<open>media_extension\<close> returns no string for the valid record whose only URL is
  \<open>http://localhost/image\<close>.
\<close>

theorem media_extension_suffix_counterexample:
  "APOD_validate_data example_no_dot = Inr () \<and>
   media_extension example_no_dot = Inl (ValueError ''substring not found'')"
  by (simp add: APOD_validate_data_def example_no_dot_def example_apod_def date_2024_01_01
      best_url_def py_or_def media_extension_def)

section \<open>Validation\<close>

text \<open>
  C8 fails on the code: \<^verbatim>\<open>re.match\<close> checks only that the date starts with ten
  characters of the form YYYY-MM-DD. The document with date \<open>2024-01-01x\<close> constructs
  a record, which keeps that date.
\<close>

theorem validation_accepts_trailing_text:
  "APOD_of (PDict [(''date'', PStr ''2024-01-01x''), (''title'', PStr ''Galaxy''),
      (''explanation'', PStr ''A galaxy.''), (''url'', PStr ''https://example.com/a.jpg''),
      (''media_type'', PStr ''image'')]) =
   Inr \<lparr> date = ''2024-01-01x'', title = PStr ''Galaxy'', explanation = PStr ''A galaxy.'',
         url = PStr ''https://example.com/a.jpg'', media_type = PStr ''image'',
         hdurl = PNone, concepts = PNone, thumbnail_url = PNone, copyright = PNone,
         resources = PNone, service_version = PNone \<rparr>"
  by (simp add: APOD_of_def APOD_init_def APOD_fields_def APOD_required_def kwarg_def
      APOD_validate_data_def date_with_trailing_text)

section \<open>Storing and reloading a record\<close>



section \<open>The bounds of a random fetch\<close>

text \<open>
  C7. \<open>APOD_fetch_random\<close> with a count outside 1..100 returns the ValueError and
  leaves the world as it was, so no request has been sent; with a count within
  1..100 it sends the request for that count.
\<close>

theorem fetch_random_count_bounds:
  "(\<not> (1 \<le> count \<and> count \<le> 100) \<longrightarrow>
      APOD_fetch_random e key count w =
        (Inl (ValueError ''`count` must be between (0, 100]''), w)) \<and>
   (1 \<le> count \<and> count \<le> 100 \<longrightarrow>
      net_log (snd (APOD_fetch_random e key count w)) =
        net_log w @ [ApiGet [(''api_key'', PStr key), (''count'', PInt count)]])"
  by (auto simp: APOD_fetch_random_def send_def split: sum.splits)

theorem fetch_random_count_bounds_witness:
  "APOD_fetch_random env_down ''X'' 0 world_empty =
     (Inl (ValueError ''`count` must be between (0, 100]''), world_empty) \<and>
   APOD_fetch_random env_down ''X'' 101 world_empty =
     (Inl (ValueError ''`count` must be between (0, 100]''), world_empty) \<and>
   net_log (snd (APOD_fetch_random env_down ''X'' 1 world_empty)) =
     net_log world_empty @ [ApiGet [(''api_key'', PStr ''X''), (''count'', PInt 1)]] \<and>
   net_log (snd (APOD_fetch_random env_down ''X'' 100 world_empty)) =
     net_log world_empty @ [ApiGet [(''api_key'', PStr ''X''), (''count'', PInt 100)]]"
  using fetch_random_count_bounds [of 0 env_down "''X''" world_empty]
    fetch_random_count_bounds [of 101 env_down "''X''" world_empty]
    fetch_random_count_bounds [of 1 env_down "''X''" world_empty]
    fetch_random_count_bounds [of 100 env_down "''X''" world_empty]
  by simp

section \<open>Unknown keys in the configuration file\<close>



section \<open>Saving the media of a record\<close>

lemma save_media_for_present:
  assumes "media_extension r = Inr ext" and "dirs w (apods_media_path cfg) = Some es"
    and "media_file_name r ext \<in> fst ` set es"
  shows "save_media_for cfg e r w = (Inr (), w)"
  using assms by (simp add: save_media_for_def listdir_def media_file_name_def)


text \<open>
  C4 (as amended). For every record that is not an image, \<open>save_media_for\<close> leaves
  the world as it was: it sends nothing and writes nothing. When moreover the record
  has a media extension and the media directory exists, the call fails with the
  TypeError if \<open>{date}.{extension}\<close> is not listed there, and returns normally if it
  is.
\<close>

theorem save_media_for_non_image:
  assumes "\<not> is_image r"
  shows "snd (save_media_for cfg e r w) = w \<and>
         (media_extension r = Inr ext \<and> dirs w (apods_media_path cfg) = Some es \<and>
          media_file_name r ext \<notin> fst ` set es \<longrightarrow>
            fst (save_media_for cfg e r w) = Inl (TypeError NotSavableImage)) \<and>
         (media_extension r = Inr ext \<and> dirs w (apods_media_path cfg) = Some es \<and>
          media_file_name r ext \<in> fst ` set es \<longrightarrow>
            fst (save_media_for cfg e r w) = Inr ())"
  using assms
  by (auto simp: save_media_for_def listdir_def Let_def media_file_name_def
      split: sum.splits option.splits)

lemma example_video_extension: "media_extension example_video = Inr ''mp4''"
  by (simp add: media_extension_def example_video_def example_apod_def best_url_def py_or_def)

lemma example_video_no_image: "\<not> is_image example_video"
  by (simp add: is_image_def example_video_def example_apod_def)

theorem save_media_for_non_image_witness:
  "\<not> is_image example_video \<and>
   snd (save_media_for example_cfg (env_serving example_apod) example_video world_empty) =
     world_empty \<and>
   fst (save_media_for example_cfg (env_serving example_apod) example_video world_empty) =
     Inl (TypeError NotSavableImage) \<and>
   snd (save_media_for example_cfg (env_serving example_apod) example_video world_one_video) =
     world_one_video \<and>
   fst (save_media_for example_cfg (env_serving example_apod) example_video world_one_video) =
     Inr ()"
proof -
  have empty: "dirs world_empty (apods_media_path example_cfg) = Some []"
    by (simp add: world_empty_def world_of_def example_cfg_def)
  have listing: "dirs world_one_video (apods_media_path example_cfg) =
      Some [(''2024-01-01.mp4'', Blob [0])]"
    by (simp add: world_one_video_def world_of_def example_cfg_def)
  have name: "media_file_name example_video ''mp4'' = ''2024-01-01.mp4''"
    by (simp add: media_file_name_def example_video_def example_apod_def)
  show ?thesis
    using save_media_for_non_image [OF example_video_no_image,
        of example_cfg "env_serving example_apod" world_empty "''mp4''" "[]"]
      save_media_for_non_image [OF example_video_no_image,
        of example_cfg "env_serving example_apod" world_one_video "''mp4''"
          "[(''2024-01-01.mp4'', Blob [0])]"]
      example_video_no_image example_video_extension empty listing name
    by simp
qed

text \<open>
  C4 as stated fails: the check for an existing file comes first. For the video
  record, with \<open>2024-01-01.mp4\<close> already in the media directory, \<open>save_media_for\<close>
  returns normally instead of failing.
\<close>

theorem save_media_for_non_image_counterexample:
  "media_type example_video = PStr ''video'' \<and>
   save_media_for example_cfg env_down example_video world_one_video =
     (Inr (), world_one_video)"
proof -
  have listing: "dirs world_one_video (apods_media_path example_cfg) =
      Some [(''2024-01-01.mp4'', Blob [0])]"
    by (simp add: world_one_video_def world_of_def example_cfg_def)
  have "save_media_for example_cfg env_down example_video world_one_video =
     (Inr (), world_one_video)"
    by (rule save_media_for_present [OF example_video_extension listing])
      (simp add: media_file_name_def example_video_def example_apod_def)
  then show ?thesis
    by (simp add: example_video_def example_apod_def)
qed







end
